theory Spec2Isabelle
  imports Main "HOL-Library.Char_ord" "HOL-Library.List_Lexorder" "HOL-Library.Multiset"
begin

section \<open>Python values\<close>

text \<open>
  The records that flow through \<^verbatim>\<open>axiomhive/__init__.py\<close> and
  \<^verbatim>\<open>axiomhive/core/attestation.py\<close> are \<^verbatim>\<open>Dict[str, Any]\<close>.
  A dictionary is an association list in insertion order (the keys of a Python dictionary
  are distinct; see \<open>wf_val\<close> below), a \<^verbatim>\<open>str\<close> is a list of code points
  below 256, an \<^verbatim>\<open>int\<close> is unbounded.

  No function of the two modules computes with a \<^verbatim>\<open>float\<close>: floats are only stored,
  looked up and printed. A float is therefore identified by what \<^verbatim>\<open>float.__repr__\<close>
  prints for it (the shortest text that reads back as the same float), so the literal
  \<^verbatim>\<open>0.6\<close> of the source is \<open>PFloat ''0.6''\<close>.

  \<open>PObj s r\<close> is any other object, one that \<^verbatim>\<open>json\<close> cannot encode by itself; \<open>s\<close> is
  what \<^verbatim>\<open>str\<close> returns for it and \<open>r\<close> what \<^verbatim>\<open>repr\<close> returns.
\<close>

datatype pyval =
    PNone
  | PBool bool
  | PInt int
  | PFloat string
  | PStr string
  | PList "pyval list"
  | PDict "(string \<times> pyval) list"
  | PObj string string

type_synonym pydict = "(string \<times> pyval) list"

datatype py_error = KeyError string | AttributeError string

text \<open>\<^verbatim>\<open>d[k]\<close> raises \<^verbatim>\<open>KeyError\<close> on a missing key; \<^verbatim>\<open>d.get(k, default)\<close> does not.\<close>

definition getitem :: "pydict \<Rightarrow> string \<Rightarrow> py_error + pyval" where
  "getitem d k = (case map_of d k of None \<Rightarrow> Inl (KeyError k) | Some v \<Rightarrow> Inr v)"

definition get :: "pydict \<Rightarrow> string \<Rightarrow> pyval \<Rightarrow> pyval" where
  "get d k dflt = (case map_of d k of None \<Rightarrow> dflt | Some v \<Rightarrow> v)"

subsection \<open>Printing: \<^verbatim>\<open>str\<close>, \<^verbatim>\<open>repr\<close> and f-strings\<close>

fun join :: "string \<Rightarrow> string list \<Rightarrow> string" where
  "join sep [] = []"
| "join sep [x] = x"
| "join sep (x # y # ys) = x @ sep @ join sep (y # ys)"

definition digit_char :: "nat \<Rightarrow> char" where
  "digit_char n = ''0123456789abcdef'' ! (n mod 16)"

fun show_nat :: "nat \<Rightarrow> string" where
  "show_nat n = (if n < 10 then [digit_char n] else show_nat (n div 10) @ [digit_char (n mod 10)])"

declare show_nat.simps [simp del]

definition show_int :: "int \<Rightarrow> string" where
  "show_int i = (if i < 0 then CHR ''-'' # show_nat (nat (- i)) else show_nat (nat i))"

definition hex2 :: "nat \<Rightarrow> string" where
  "hex2 n = [digit_char (n div 16), digit_char (n mod 16)]"

text \<open>
  \<^verbatim>\<open>repr\<close> of a \<^verbatim>\<open>str\<close>: single quotes, unless the text has a single quote and no
  double quote; the quote and the backslash are escaped, tab, newline and carriage return
  are written \<^verbatim>\<open>\t\<close>, \<^verbatim>\<open>\n\<close>, \<^verbatim>\<open>\r\<close>, and every other code point that is not
  printable is written \<^verbatim>\<open>\xhh\<close>.
\<close>

definition repr_char :: "char \<Rightarrow> char \<Rightarrow> string" where
  "repr_char quote c =
     (let n = (of_char c :: nat) in
      if c = quote \<or> c = CHR 0x5C then [CHR 0x5C, c]
      else if n = 9 then [CHR 0x5C, CHR ''t'']
      else if n = 10 then [CHR 0x5C, CHR ''n'']
      else if n = 13 then [CHR 0x5C, CHR ''r'']
      else if n < 32 \<or> n = 127 then [CHR 0x5C, CHR ''x''] @ hex2 n
      else if n < 127 then [c]
      else if n \<le> 160 \<or> n = 173 then [CHR 0x5C, CHR ''x''] @ hex2 n
      else [c])"

definition repr_str :: "string \<Rightarrow> string" where
  "repr_str s =
     (let quote = (if CHR 0x27 \<in> set s \<and> CHR 0x22 \<notin> set s then CHR 0x22 else CHR 0x27)
      in [quote] @ concat (map (repr_char quote) s) @ [quote])"

fun repr :: "pyval \<Rightarrow> string" where
  "repr PNone = ''None''"
| "repr (PBool b) = (if b then ''True'' else ''False'')"
| "repr (PInt i) = show_int i"
| "repr (PFloat r) = r"
| "repr (PStr s) = repr_str s"
| "repr (PList xs) = ''['' @ join '', '' (map repr xs) @ '']''"
| "repr (PDict kvs) =
     ''{'' @ join '', '' (map (\<lambda>(k, v). repr_str k @ '': '' @ repr v) kvs) @ ''}''"
| "repr (PObj s r) = r"

text \<open>
  \<^verbatim>\<open>str(x)\<close>, which is also what a replacement field \<^verbatim>\<open>{x}\<close> of an f-string
  inserts: a \<^verbatim>\<open>str\<close> is inserted as it is.
\<close>

fun str :: "pyval \<Rightarrow> string" where
  "str (PStr s) = s"
| "str (PObj s r) = s"
| "str v = repr v"

section \<open>\<^verbatim>\<open>json.dumps(o, sort_keys=True, default=str)\<close>\<close>

text \<open>
  The encoder with its default settings (\<^verbatim>\<open>ensure_ascii=True\<close>, separators
  \<^verbatim>\<open>', '\<close> and \<^verbatim>\<open>': '\<close>, \<^verbatim>\<open>allow_nan=True\<close>). A string is written between
  double quotes; the backslash, the double quote and the control characters with a short
  form are escaped with a backslash, the other code points outside \<^verbatim>\<open>' '..'~'\<close> as
  \<^verbatim>\<open>\u00hh\<close>.
\<close>

definition escape_ascii :: "char \<Rightarrow> string" where
  "escape_ascii c =
     (let n = (of_char c :: nat) in
      if c = CHR 0x5C then [CHR 0x5C, CHR 0x5C]
      else if c = CHR 0x22 then [CHR 0x5C, CHR 0x22]
      else if n = 8 then [CHR 0x5C, CHR ''b'']
      else if n = 12 then [CHR 0x5C, CHR ''f'']
      else if n = 10 then [CHR 0x5C, CHR ''n'']
      else if n = 13 then [CHR 0x5C, CHR ''r'']
      else if n = 9 then [CHR 0x5C, CHR ''t'']
      else if 32 \<le> n \<and> n \<le> 126 then [c]
      else [CHR 0x5C, CHR ''u'', CHR ''0'', CHR ''0''] @ hex2 n)"

definition encode_basestring_ascii :: "string \<Rightarrow> string" where
  "encode_basestring_ascii s = [CHR 0x22] @ concat (map escape_ascii s) @ [CHR 0x22]"

definition floatstr :: "string \<Rightarrow> string" where
  "floatstr r =
     (if r = ''nan'' then ''NaN''
      else if r = ''inf'' then ''Infinity''
      else if r = ''-inf'' then ''-Infinity''
      else r)"

text \<open>
  With \<^verbatim>\<open>sort_keys=True\<close> the encoder writes the items of every dictionary, nested
  ones too, as \<^verbatim>\<open>sorted(dct.items())\<close> gives them: by key, in the order of code points
  (the keys of one dictionary differ, so the values are never compared). An object that
  the encoder does not know goes through \<^verbatim>\<open>default=str\<close> and is written as the
  string \<^verbatim>\<open>str\<close> gives. The keys are \<^verbatim>\<open>str\<close>, as the annotation
  \<^verbatim>\<open>Dict[str, Any]\<close> says, and a value of \<open>pyval\<close> is a finite tree, so the encoder
  meets neither keys it cannot order nor a cycle: on these inputs it always returns.
\<close>

function dumps :: "pyval \<Rightarrow> string" where
  "dumps PNone = ''null''"
| "dumps (PBool b) = (if b then ''true'' else ''false'')"
| "dumps (PInt i) = show_int i"
| "dumps (PFloat r) = floatstr r"
| "dumps (PStr s) = encode_basestring_ascii s"
| "dumps (PList xs) = ''['' @ join '', '' (map dumps xs) @ '']''"
| "dumps (PDict kvs) =
     ''{'' @ join '', ''
        (map (\<lambda>(k, v). encode_basestring_ascii k @ '': '' @ dumps v) (sort_key fst kvs)) @ ''}''"
| "dumps (PObj s r) = encode_basestring_ascii s"
  by pat_completeness auto
termination
proof (relation "measure size", goal_cases)
  case 1
  show ?case by simp
next
  case (2 xs x)
  then show ?case by (simp add: less_Suc_eq_le size_list_estimation')
next
  case (3 kvs x k v)
  then have "(k, v) \<in> set kvs" by simp
  then have "size_prod (\<lambda>_. 0) size (k, v) \<le> size_list (size_prod (\<lambda>_. 0) size) kvs"
    by (rule size_list_estimation') simp
  then show ?case by simp
qed

section \<open>The hybrid model (\<^verbatim>\<open>axiomhive/__init__.py\<close>)\<close>

datatype ReasoningMode = SYMBOLIC | PROBABILISTIC | HYBRID | VOTING

fun mode_value :: "ReasoningMode \<Rightarrow> string" where
  "mode_value SYMBOLIC = ''symbolic''"
| "mode_value PROBABILISTIC = ''probabilistic''"
| "mode_value HYBRID = ''hybrid''"
| "mode_value VOTING = ''voting''"

text \<open>
  The annotation of \<^verbatim>\<open>reasoning_mode\<close> is \<^verbatim>\<open>ReasoningMode\<close>, and Python does not
  enforce it: the attribute holds whatever object the caller passed or assigned.
  The code does two things with the object: it reads \<^verbatim>\<open>reasoning_mode.value\<close> when
  it logs, and it compares the object with members of the enumeration by \<^verbatim>\<open>==\<close>,
  which calls the object's own \<^verbatim>\<open>__eq__\<close>.

  \<open>Member m\<close> is a member of the enumeration. \<open>NonMember a eq\<close> is any other object:
  \<open>a\<close> is the text of its \<^verbatim>\<open>value\<close> attribute when it has one, and \<open>eq m\<close> is the
  truth value of \<^verbatim>\<open>obj == ReasoningMode.m\<close>. (An object whose \<^verbatim>\<open>__eq__\<close> or whose
  \<^verbatim>\<open>value\<close> itself raises is not represented.)
\<close>

datatype mode_obj = Member ReasoningMode | NonMember "string option" "ReasoningMode \<Rightarrow> bool"

fun dot_value :: "mode_obj \<Rightarrow> py_error + string" where
  "dot_value (Member m) = Inr (mode_value m)"
| "dot_value (NonMember (Some a) eq) = Inr a"
| "dot_value (NonMember None eq) = Inl (AttributeError ''value'')"

text \<open>
  \<^verbatim>\<open>self.reasoning_mode == ReasoningMode.m\<close>. The members of an enumeration are
  singletons without an \<^verbatim>\<open>__eq__\<close> of their own, so two members are equal when they
  are the same member; for another object its own comparison decides.
\<close>

fun eq_member :: "mode_obj \<Rightarrow> ReasoningMode \<Rightarrow> bool" where
  "eq_member (Member m) m' = (m = m')"
| "eq_member (NonMember a eq) m' = eq m'"

text \<open>
  Two comparisons a non-member may have: the one every class inherits from
  \<^verbatim>\<open>object\<close>, identity, under which it equals no member; and a comparison by value,
  \<^verbatim>\<open>self.value == other.value\<close>, for an object whose \<^verbatim>\<open>value\<close> is the text \<open>a\<close>.
\<close>

definition default_eq :: "ReasoningMode \<Rightarrow> bool" where
  "default_eq m = False"

definition value_eq :: "string \<Rightarrow> ReasoningMode \<Rightarrow> bool" where
  "value_eq a m = (a = mode_value m)"

record HybridOutput =
  output_val :: pyval
  reasoning_path :: pyval
  confidence_score :: pyval
  formal_verification :: bool
  attestation_hash :: "string option"
  symbolic_contribution :: pyval
  probabilistic_contribution :: pyval
  compliance_verified :: bool

record AxiomHiveHybridModel =
  symbolic_axioms_path :: "string option"
  probabilistic_model_path :: "string option"
  reasoning_mode :: mode_obj
  attestation_enabled :: bool
  compliance_mode :: string

text \<open>
  \<^verbatim>\<open>__init__\<close> stores its arguments; the second logging call formats
  \<^verbatim>\<open>reasoning_mode.value\<close>. The three engine attributes are \<^verbatim>\<open>None\<close> and never read.
\<close>

definition init ::
  "string option \<Rightarrow> string option \<Rightarrow> mode_obj \<Rightarrow> bool \<Rightarrow> string \<Rightarrow> py_error + AxiomHiveHybridModel" where
  "init axioms_path model_path mode attestation compliance =
     (case dot_value mode of
        Inl e \<Rightarrow> Inl e
      | Inr _ \<Rightarrow> Inr \<lparr>symbolic_axioms_path = axioms_path, probabilistic_model_path = model_path,
                     reasoning_mode = mode, attestation_enabled = attestation,
                     compliance_mode = compliance\<rparr>)"

text \<open>The two pathways are stubs: each returns a fixed dictionary, whatever the input.\<close>

definition symbolic_reasoning :: "pyval \<Rightarrow> bool \<Rightarrow> pydict" where
  "symbolic_reasoning input_data verify_constraints =
     [(''decision'', PStr ''APPROVED''),
      (''reasoning'', PStr ''Constraint satisfaction verified via formal logic''),
      (''verified'', PBool True)]"

definition probabilistic_inference :: "pyval \<Rightarrow> pydict" where
  "probabilistic_inference input_data =
     [(''decision'', PStr ''APPROVED''),
      (''confidence'', PFloat ''0.96''),
      (''reasoning'', PStr ''Pattern recognition confidence 96%'')]"

text \<open>
  \<^verbatim>\<open>_orchestrate\<close>. The logging call comes first and formats
  \<^verbatim>\<open>self.reasoning_mode.value\<close>. The branch \<^verbatim>\<open>else:  # HYBRID or VOTING\<close> is taken by
  every mode that compares equal (\<^verbatim>\<open>==\<close>) neither to \<^verbatim>\<open>SYMBOLIC\<close> nor to
  \<^verbatim>\<open>PROBABILISTIC\<close>; the dictionary display evaluates its values in the order written,
  so the first missing key raises.
\<close>

definition orchestrate :: "AxiomHiveHybridModel \<Rightarrow> pydict \<Rightarrow> pydict \<Rightarrow> py_error + pydict" where
  "orchestrate self symbolic probabilistic =
     (case dot_value (reasoning_mode self) of
        Inl e \<Rightarrow> Inl e
      | Inr _ \<Rightarrow>
          if eq_member (reasoning_mode self) SYMBOLIC then Inr symbolic
          else if eq_member (reasoning_mode self) PROBABILISTIC then Inr probabilistic
          else
            (case getitem symbolic ''decision'' of
               Inl e \<Rightarrow> Inl e
             | Inr decision \<Rightarrow>
                 let confidence = get probabilistic ''confidence'' (PFloat ''0.5'') in
                 (case getitem symbolic ''reasoning'' of
                    Inl e \<Rightarrow> Inl e
                  | Inr rs \<Rightarrow>
                      (case getitem probabilistic ''reasoning'' of
                         Inl e \<Rightarrow> Inl e
                       | Inr rp \<Rightarrow>
                           Inr [(''decision'', decision),
                                (''confidence'', confidence),
                                (''reasoning'',
                                 PStr (''Symbolic: '' @ str rs @ ''; Probabilistic: '' @ str rp)),
                                (''symbolic_weight'', PFloat ''0.6''),
                                (''probabilistic_weight'', PFloat ''0.4'')]))))"

text \<open>
  \<^verbatim>\<open>hashlib.sha256(s.encode()).hexdigest()\<close> is the parameter \<open>H\<close> of everything that
  hashes: the text that \<^verbatim>\<open>json.dumps\<close> returns is ASCII, so its encoding is the same
  sequence of bytes.
\<close>

definition model_generate_attestation :: "(string \<Rightarrow> string) \<Rightarrow> pydict \<Rightarrow> string" where
  "model_generate_attestation H out = H (dumps (PDict out))"

definition process ::
  "(string \<Rightarrow> string) \<Rightarrow> AxiomHiveHybridModel \<Rightarrow> pyval \<Rightarrow> bool \<Rightarrow> bool \<Rightarrow> py_error + HybridOutput" where
  "process H self input_data require_explanation verify_constraints =
     (let symbolic_result = symbolic_reasoning input_data verify_constraints;
          probabilistic_result = probabilistic_inference input_data
      in case orchestrate self symbolic_result probabilistic_result of
           Inl e \<Rightarrow> Inl e
         | Inr fused_output \<Rightarrow>
             let att = (if attestation_enabled self
                        then Some (model_generate_attestation H fused_output) else None)
             in (case getitem fused_output ''decision'' of
                   Inl e \<Rightarrow> Inl e
                 | Inr decision \<Rightarrow>
                     Inr \<lparr>output_val = decision,
                          reasoning_path = (if require_explanation
                                            then get fused_output ''reasoning'' (PStr [])
                                            else PStr []),
                          confidence_score = get fused_output ''confidence'' (PFloat ''0.0''),
                          formal_verification = verify_constraints,
                          attestation_hash = att,
                          symbolic_contribution = get fused_output ''symbolic_weight'' (PFloat ''0.0''),
                          probabilistic_contribution =
                            get fused_output ''probabilistic_weight'' (PFloat ''0.0''),
                          compliance_verified = True\<rparr>))"

definition verify_output_str :: "HybridOutput \<Rightarrow> string" where
  "verify_output_str out =
     dumps (PDict [(''output'', output_val out),
                   (''reasoning_path'', reasoning_path out),
                   (''confidence_score'', confidence_score out)])"

text \<open>
  \<^verbatim>\<open>verify_output\<close> compares the digest it computes with its argument; the argument may
  be the \<^verbatim>\<open>None\<close> of an output made without attestation, which equals no digest.
\<close>

definition verify_output :: "(string \<Rightarrow> string) \<Rightarrow> HybridOutput \<Rightarrow> string option \<Rightarrow> bool" where
  "verify_output H out hash = (Some (H (verify_output_str out)) = hash)"

section \<open>The attestation engine (\<^verbatim>\<open>axiomhive/core/attestation.py\<close>)\<close>

text \<open>
  The engine keeps its log in a Python list, a mutable object that
  \<^verbatim>\<open>get_audit_trail\<close> hands out. The list objects therefore live in a store, from
  addresses to contents, and the engine holds the address of its list.
\<close>

type_synonym addr = nat

record store =
  cells :: "addr \<Rightarrow> pyval list"
  next_addr :: addr

record CryptographicAttestationEngine =
  strategy :: string
  attestation_log :: addr

text \<open>An in-place change of the list at an address: \<^verbatim>\<open>append\<close>, \<^verbatim>\<open>clear\<close>, and any other.\<close>

definition mutate :: "addr \<Rightarrow> (pyval list \<Rightarrow> pyval list) \<Rightarrow> store \<Rightarrow> store" where
  "mutate a f st = st\<lparr>cells := (cells st)(a := f (cells st a))\<rparr>"

definition list_append :: "addr \<Rightarrow> pyval \<Rightarrow> store \<Rightarrow> store" where
  "list_append a x st = mutate a (\<lambda>xs. xs @ [x]) st"

definition list_clear :: "addr \<Rightarrow> store \<Rightarrow> store" where
  "list_clear a st = mutate a (\<lambda>xs. []) st"

text \<open>\<^verbatim>\<open>__init__\<close>: \<^verbatim>\<open>self.attestation_log = []\<close> makes a new list object.\<close>

definition engine_init :: "string \<Rightarrow> store \<Rightarrow> CryptographicAttestationEngine \<times> store" where
  "engine_init strat st =
     (\<lparr>strategy = strat, attestation_log = next_addr st\<rparr>,
      st\<lparr>cells := (cells st)(next_addr st := []), next_addr := Suc (next_addr st)\<rparr>)"

text \<open>\<^verbatim>\<open>metadata or {}\<close>: \<^verbatim>\<open>None\<close> and the empty dictionary both give \<^verbatim>\<open>{}\<close>.\<close>

fun or_empty :: "pydict option \<Rightarrow> pydict" where
  "or_empty None = []"
| "or_empty (Some m) = m"

text \<open>
  The text that both operations hash. \<open>now\<close> is what
  \<^verbatim>\<open>datetime.utcnow().isoformat()\<close> returns at the moment of the call: the clock is
  an input of the model.
\<close>

definition attestation_str :: "pydict \<Rightarrow> pydict option \<Rightarrow> string \<Rightarrow> string" where
  "attestation_str out metadata now =
     dumps (PDict [(''output'', PDict out),
                   (''metadata'', PDict (or_empty metadata)),
                   (''timestamp'', PStr now)])"

definition generate_attestation ::
  "(string \<Rightarrow> string) \<Rightarrow> CryptographicAttestationEngine \<Rightarrow> string \<Rightarrow> pydict \<Rightarrow> pydict option
     \<Rightarrow> store \<Rightarrow> string \<times> store" where
  "generate_attestation H self now out metadata st =
     (let attestation_hash = H (attestation_str out metadata now)
      in (attestation_hash,
          list_append (attestation_log self)
            (PDict [(''hash'', PStr attestation_hash),
                    (''timestamp'', PStr now),
                    (''strategy'', PStr (strategy self))]) st))"

definition verify_attestation ::
  "(string \<Rightarrow> string) \<Rightarrow> string \<Rightarrow> pydict \<Rightarrow> string \<Rightarrow> pydict option \<Rightarrow> bool" where
  "verify_attestation H now out expected_hash metadata =
     (H (attestation_str out metadata now) = expected_hash)"

text \<open>\<^verbatim>\<open>return self.attestation_log\<close>: the result is the list object itself.\<close>

definition get_audit_trail :: "CryptographicAttestationEngine \<Rightarrow> addr" where
  "get_audit_trail self = attestation_log self"

subsection \<open>Sequences of calls on one engine\<close>

datatype engine_call =
    Generate string pydict "pydict option"
  | Verify string pydict string "pydict option"
  | GetAuditTrail

datatype call_result = Digest string | Verdict bool | Trail addr

fun call ::
  "(string \<Rightarrow> string) \<Rightarrow> CryptographicAttestationEngine \<Rightarrow> engine_call \<Rightarrow> store
     \<Rightarrow> call_result \<times> store" where
  "call H self (Generate now out metadata) st =
     (let (h, st') = generate_attestation H self now out metadata st in (Digest h, st'))"
| "call H self (Verify now out h metadata) st = (Verdict (verify_attestation H now out h metadata), st)"
| "call H self GetAuditTrail st = (Trail (get_audit_trail self), st)"

fun run ::
  "(string \<Rightarrow> string) \<Rightarrow> CryptographicAttestationEngine \<Rightarrow> engine_call list \<Rightarrow> store
     \<Rightarrow> call_result list \<times> store" where
  "run H self [] st = ([], st)"
| "run H self (c # cs) st =
     (let (r, st') = call H self c st; (rs, st'') = run H self cs st' in (r # rs, st''))"

text \<open>The log entries that a sequence of calls and their results account for.\<close>

fun entries :: "string \<Rightarrow> engine_call list \<Rightarrow> call_result list \<Rightarrow> pyval list" where
  "entries strat (Generate now out metadata # cs) (Digest h # rs) =
     PDict [(''hash'', PStr h), (''timestamp'', PStr now), (''strategy'', PStr strat)]
       # entries strat cs rs"
| "entries strat (c # cs) (r # rs) = entries strat cs rs"
| "entries strat cs rs = []"

subsection \<open>Dictionaries that differ in insertion order only\<close>



subsection \<open>Concrete configurations\<close>

text \<open>
  \<^verbatim>\<open>AxiomHiveHybridModel(reasoning_mode=mode)\<close>, the other arguments at their defaults;
  a store with no list object yet; the calls that generate.
\<close>

definition new_model :: "mode_obj \<Rightarrow> AxiomHiveHybridModel" where
  "new_model mode =
     \<lparr>symbolic_axioms_path = None, probabilistic_model_path = None,
      reasoning_mode = mode, attestation_enabled = True, compliance_mode = ''ISO42001''\<rparr>"

definition empty_store :: store where
  "empty_store = \<lparr>cells = (\<lambda>a. []), next_addr = 0\<rparr>"

fun is_generate :: "engine_call \<Rightarrow> bool" where
  "is_generate (Generate now out metadata) = True"
| "is_generate c = False"

section \<open>Fusion\<close>

text \<open>
  C1. Under \<^verbatim>\<open>HYBRID\<close> or \<^verbatim>\<open>VOTING\<close>, for every deterministic record \<open>d\<close> that has
  a decision and a reasoning and every probabilistic record \<open>p\<close> that has a reasoning, the
  fused record is exactly: the decision of \<open>d\<close> (whatever \<open>p\<close> decides and however
  confident it is), the confidence of \<open>p\<close> or 0.5 when \<open>p\<close> has none, the reasoning
  \<^verbatim>\<open>"Symbolic: {d.reasoning}; Probabilistic: {p.reasoning}"\<close>, and the weights 0.6 and 0.4.
\<close>

theorem fusion_hybrid_voting:
  assumes "reasoning_mode self = Member HYBRID \<or> reasoning_mode self = Member VOTING"
      and "map_of d ''decision'' = Some dec"
      and "map_of d ''reasoning'' = Some rs"
      and "map_of p ''reasoning'' = Some rp"
  shows "orchestrate self d p =
           Inr [(''decision'', dec),
                (''confidence'',
                 (case map_of p ''confidence'' of None \<Rightarrow> PFloat ''0.5'' | Some c \<Rightarrow> c)),
                (''reasoning'', PStr (''Symbolic: '' @ str rs @ ''; Probabilistic: '' @ str rp)),
                (''symbolic_weight'', PFloat ''0.6''),
                (''probabilistic_weight'', PFloat ''0.4'')]"
  using assms by (auto simp: orchestrate_def getitem_def get_def)

text \<open>The scenario of the specification: an approval by rule against a rejection at 0.3.\<close>

theorem fusion_hybrid_voting_witness:
  "orchestrate (new_model (Member HYBRID))
     [(''decision'', PStr ''APPROVED''), (''reasoning'', PStr ''rule R3 satisfied''),
      (''verified'', PBool True)]
     [(''decision'', PStr ''REJECTED''), (''confidence'', PFloat ''0.3''),
      (''reasoning'', PStr ''anomaly score high'')]
   = Inr [(''decision'', PStr ''APPROVED''),
          (''confidence'', PFloat ''0.3''),
          (''reasoning'', PStr ''Symbolic: rule R3 satisfied; Probabilistic: anomaly score high''),
          (''symbolic_weight'', PFloat ''0.6''),
          (''probabilistic_weight'', PFloat ''0.4'')]"
  using fusion_hybrid_voting [of
      "new_model (Member HYBRID)"
      "[(''decision'', PStr ''APPROVED''), (''reasoning'', PStr ''rule R3 satisfied''),
        (''verified'', PBool True)]"
      "PStr ''APPROVED''" "PStr ''rule R3 satisfied''"
      "[(''decision'', PStr ''REJECTED''), (''confidence'', PFloat ''0.3''),
        (''reasoning'', PStr ''anomaly score high'')]"
      "PStr ''anomaly score high''"]
  by (simp add: new_model_def)

text \<open>
  C2, as amended. Under \<^verbatim>\<open>SYMBOLIC\<close> the result is the deterministic record itself and
  under \<^verbatim>\<open>PROBABILISTIC\<close> the probabilistic record itself, for all records. Nothing is
  added to the record: it has the weight fields only if the input had them.
\<close>

theorem mode_purity:
  "(reasoning_mode self = Member SYMBOLIC \<longrightarrow> orchestrate self d p = Inr d) \<and>
   (reasoning_mode self = Member PROBABILISTIC \<longrightarrow> orchestrate self d p = Inr p)"
  by (simp add: orchestrate_def)

theorem mode_purity_witness:
  "orchestrate (new_model (Member SYMBOLIC))
     [(''decision'', PStr ''APPROVED''), (''reasoning'', PStr ''rule R3 satisfied'')]
     [(''decision'', PStr ''REJECTED''), (''confidence'', PFloat ''0.3'')]
     = Inr [(''decision'', PStr ''APPROVED''), (''reasoning'', PStr ''rule R3 satisfied'')]
   \<and> orchestrate (new_model (Member PROBABILISTIC))
     [(''decision'', PStr ''APPROVED''), (''reasoning'', PStr ''rule R3 satisfied'')]
     [(''decision'', PStr ''REJECTED''), (''confidence'', PFloat ''0.3'')]
     = Inr [(''decision'', PStr ''REJECTED''), (''confidence'', PFloat ''0.3'')]"
  using
    mode_purity [of "new_model (Member SYMBOLIC)"
      "[(''decision'', PStr ''APPROVED''), (''reasoning'', PStr ''rule R3 satisfied'')]"
      "[(''decision'', PStr ''REJECTED''), (''confidence'', PFloat ''0.3'')]"]
    mode_purity [of "new_model (Member PROBABILISTIC)"
      "[(''decision'', PStr ''APPROVED''), (''reasoning'', PStr ''rule R3 satisfied'')]"
      "[(''decision'', PStr ''REJECTED''), (''confidence'', PFloat ''0.3'')]"]
  by (simp add: new_model_def)

text \<open>
  C2 as stated fails on the weights. Under \<^verbatim>\<open>SYMBOLIC\<close> the stub pathways' records give
  back the deterministic record, which has no \<^verbatim>\<open>symbolic_weight\<close>, and
  \<^verbatim>\<open>process\<close> then reports a symbolic contribution of 0.0, not 1.0.
\<close>

theorem mode_purity_counterexample:
  "orchestrate (new_model (Member SYMBOLIC))
     (symbolic_reasoning PNone True) (probabilistic_inference PNone)
     = Inr (symbolic_reasoning PNone True)
   \<and> map_of (symbolic_reasoning PNone True) ''symbolic_weight'' \<noteq> Some (PFloat ''1.0'')
   \<and> map_sum id symbolic_contribution (process id (new_model (Member SYMBOLIC)) PNone True True)
       = Inr (PFloat ''0.0'')"
  by (simp add: orchestrate_def new_model_def symbolic_reasoning_def probabilistic_inference_def
        process_def getitem_def get_def)

text \<open>
  C5, as amended. The code has no \<^verbatim>\<open>InvalidModeError\<close> and rejects no mode. For each
  of the four members of the enumeration the operation returns a record whenever the
  deterministic record has a decision and a reasoning and the probabilistic record a
  reasoning. A mode object that is no member raises \<^verbatim>\<open>AttributeError\<close> from the
  logging call when it has no \<^verbatim>\<open>value\<close> attribute. When it has one, the same
  \<^verbatim>\<open>if\<close>/\<^verbatim>\<open>elif\<close>/\<^verbatim>\<open>else\<close> decides: the result is the deterministic record if
  the object compares equal to \<^verbatim>\<open>SYMBOLIC\<close>, else the probabilistic record if it
  compares equal to \<^verbatim>\<open>PROBABILISTIC\<close>, and in every other case, so for every object
  with the inherited identity comparison, what \<^verbatim>\<open>HYBRID\<close> gives.
\<close>

theorem modes_total:
  "(reasoning_mode self = Member m \<and> ''decision'' \<in> dom (map_of d)
      \<and> ''reasoning'' \<in> dom (map_of d) \<and> ''reasoning'' \<in> dom (map_of p)
      \<longrightarrow> (\<exists>r. orchestrate self d p = Inr r))
   \<and> (reasoning_mode self = NonMember None eq \<longrightarrow>
        orchestrate self d p = Inl (AttributeError ''value''))
   \<and> (reasoning_mode self = NonMember (Some a) eq \<longrightarrow>
        orchestrate self d p =
          (if eq SYMBOLIC then Inr d
           else if eq PROBABILISTIC then Inr p
           else orchestrate (self\<lparr>reasoning_mode := Member HYBRID\<rparr>) d p))"
  by (cases m) (auto simp: orchestrate_def getitem_def)

theorem modes_total_witness:
  "(\<exists>r. orchestrate (new_model (Member VOTING))
           [(''decision'', PStr ''APPROVED''), (''reasoning'', PStr ''rule R3 satisfied'')]
           [(''decision'', PStr ''REJECTED''), (''reasoning'', PStr ''anomaly score high'')]
         = Inr r)
   \<and> orchestrate (new_model (NonMember None default_eq))
         [(''decision'', PStr ''APPROVED''), (''reasoning'', PStr ''rule R3 satisfied'')]
         [(''decision'', PStr ''REJECTED''), (''reasoning'', PStr ''anomaly score high'')]
       = Inl (AttributeError ''value'')
   \<and> orchestrate (new_model (NonMember (Some ''consensus'') default_eq))
         [(''decision'', PStr ''APPROVED''), (''reasoning'', PStr ''rule R3 satisfied'')]
         [(''decision'', PStr ''REJECTED''), (''reasoning'', PStr ''anomaly score high'')]
       = orchestrate (new_model (Member HYBRID))
         [(''decision'', PStr ''APPROVED''), (''reasoning'', PStr ''rule R3 satisfied'')]
         [(''decision'', PStr ''REJECTED''), (''reasoning'', PStr ''anomaly score high'')]
   \<and> orchestrate (new_model (NonMember (Some ''symbolic'') (value_eq ''symbolic'')))
         [(''decision'', PStr ''APPROVED''), (''reasoning'', PStr ''rule R3 satisfied'')]
         [(''decision'', PStr ''REJECTED''), (''reasoning'', PStr ''anomaly score high'')]
       = Inr [(''decision'', PStr ''APPROVED''), (''reasoning'', PStr ''rule R3 satisfied'')]
   \<and> orchestrate (new_model (NonMember (Some ''probabilistic'') (value_eq ''probabilistic'')))
         [(''decision'', PStr ''APPROVED''), (''reasoning'', PStr ''rule R3 satisfied'')]
         [(''decision'', PStr ''REJECTED''), (''reasoning'', PStr ''anomaly score high'')]
       = Inr [(''decision'', PStr ''REJECTED''), (''reasoning'', PStr ''anomaly score high'')]"
  using
    modes_total [of "new_model (Member VOTING)" VOTING
      "[(''decision'', PStr ''APPROVED''), (''reasoning'', PStr ''rule R3 satisfied'')]"
      "[(''decision'', PStr ''REJECTED''), (''reasoning'', PStr ''anomaly score high'')]"]
    modes_total [of "new_model (NonMember None default_eq)" HYBRID
      "[(''decision'', PStr ''APPROVED''), (''reasoning'', PStr ''rule R3 satisfied'')]"
      "[(''decision'', PStr ''REJECTED''), (''reasoning'', PStr ''anomaly score high'')]"
      default_eq]
    modes_total [of "new_model (NonMember (Some ''consensus'') default_eq)" HYBRID
      "[(''decision'', PStr ''APPROVED''), (''reasoning'', PStr ''rule R3 satisfied'')]"
      "[(''decision'', PStr ''REJECTED''), (''reasoning'', PStr ''anomaly score high'')]"
      default_eq "''consensus''"]
    modes_total [of "new_model (NonMember (Some ''symbolic'') (value_eq ''symbolic''))" HYBRID
      "[(''decision'', PStr ''APPROVED''), (''reasoning'', PStr ''rule R3 satisfied'')]"
      "[(''decision'', PStr ''REJECTED''), (''reasoning'', PStr ''anomaly score high'')]"
      "value_eq ''symbolic''" "''symbolic''"]
    modes_total [of
      "new_model (NonMember (Some ''probabilistic'') (value_eq ''probabilistic''))" HYBRID
      "[(''decision'', PStr ''APPROVED''), (''reasoning'', PStr ''rule R3 satisfied'')]"
      "[(''decision'', PStr ''REJECTED''), (''reasoning'', PStr ''anomaly score high'')]"
      "value_eq ''probabilistic''" "''probabilistic''"]
  by (simp add: new_model_def default_eq_def value_eq_def)

text \<open>
  C5 as stated fails: with a mode object that is none of the four members, has a
  \<^verbatim>\<open>value\<close> and the inherited comparison, the call raises nothing and returns the
  fusion of the two records.
\<close>

theorem unknown_mode_counterexample:
  "orchestrate (new_model (NonMember (Some ''consensus'') default_eq))
     [(''decision'', PStr ''APPROVED''), (''reasoning'', PStr ''rule R3 satisfied'')]
     [(''decision'', PStr ''REJECTED''), (''reasoning'', PStr ''anomaly score high'')]
   = Inr [(''decision'', PStr ''APPROVED''),
          (''confidence'', PFloat ''0.5''),
          (''reasoning'', PStr ''Symbolic: rule R3 satisfied; Probabilistic: anomaly score high''),
          (''symbolic_weight'', PFloat ''0.6''),
          (''probabilistic_weight'', PFloat ''0.4'')]"
  by (simp add: orchestrate_def new_model_def getitem_def get_def default_eq_def)

text \<open>
  C7. Whenever the orchestrator returns a record, its decision is the decision of the
  deterministic record or the decision of the probabilistic record; and for each of the
  four modes it does return one, with one of the two input decisions, when both records
  have a decision and a reasoning.
\<close>

theorem decision_from_inputs:
  "(\<forall>r. orchestrate self d p = Inr r \<longrightarrow>
        map_of r ''decision'' = map_of d ''decision''
        \<or> map_of r ''decision'' = map_of p ''decision'')
   \<and> (reasoning_mode self = Member m
        \<and> map_of d ''decision'' = Some dd \<and> map_of p ''decision'' = Some dp
        \<and> ''reasoning'' \<in> dom (map_of d) \<and> ''reasoning'' \<in> dom (map_of p) \<longrightarrow>
      (\<exists>r. orchestrate self d p = Inr r
           \<and> (map_of r ''decision'' = Some dd \<or> map_of r ''decision'' = Some dp)))"
  by (cases m)
     (auto simp: orchestrate_def getitem_def split: sum.splits option.splits if_splits)

theorem decision_from_inputs_witness:
  "\<exists>r. orchestrate (new_model (Member HYBRID))
          [(''decision'', PStr ''APPROVED''), (''reasoning'', PStr ''rule R3 satisfied'')]
          [(''decision'', PStr ''REJECTED''), (''reasoning'', PStr ''anomaly score high'')]
        = Inr r
      \<and> (map_of r ''decision'' = Some (PStr ''APPROVED'')
          \<or> map_of r ''decision'' = Some (PStr ''REJECTED''))"
  using decision_from_inputs [of "new_model (Member HYBRID)"
      "[(''decision'', PStr ''APPROVED''), (''reasoning'', PStr ''rule R3 satisfied'')]"
      "[(''decision'', PStr ''REJECTED''), (''reasoning'', PStr ''anomaly score high'')]"
      HYBRID "PStr ''APPROVED''" "PStr ''REJECTED''"]
  by (simp add: new_model_def)

section \<open>The pipeline\<close>

text \<open>
  C10. Every output that \<^verbatim>\<open>process\<close> returns has \<^verbatim>\<open>compliance_verified\<close> true and
  \<^verbatim>\<open>formal_verification\<close> equal to the argument \<^verbatim>\<open>verify_constraints\<close>, whatever the
  input and the configuration; and \<^verbatim>\<open>process\<close> returns an output for every
  configuration whose mode has a \<^verbatim>\<open>value\<close>, as every mode that \<^verbatim>\<open>__init__\<close>
  accepts has.
\<close>

theorem process_flags:
  "(\<forall>h. process H self input_data require_explanation verify_constraints = Inr h \<longrightarrow>
        compliance_verified h \<and> formal_verification h = verify_constraints)
   \<and> ((\<forall>eq. reasoning_mode self \<noteq> NonMember None eq) \<longrightarrow>
        (\<exists>h. process H self input_data require_explanation verify_constraints = Inr h))"
proof (cases "reasoning_mode self")
  case (Member m)
  then show ?thesis
    by (cases m)
       (auto simp: process_def orchestrate_def getitem_def symbolic_reasoning_def
          probabilistic_inference_def Let_def split: sum.splits if_splits)
next
  case (NonMember a eq)
  then show ?thesis
    by (cases a)
       (auto simp: process_def orchestrate_def getitem_def symbolic_reasoning_def
          probabilistic_inference_def Let_def split: sum.splits if_splits)
qed

theorem process_flags_witness:
  "\<exists>h. process id (new_model (Member HYBRID)) (PStr ''loan application'') True False = Inr h
      \<and> compliance_verified h \<and> \<not> formal_verification h"
  using process_flags [of id "new_model (Member HYBRID)" "PStr ''loan application''" True False]
  by (auto simp: new_model_def)

section \<open>The audit log\<close>

lemma call_log:
  "call H self c st = (r, st') \<Longrightarrow>
     cells st' (attestation_log self)
       = cells st (attestation_log self) @ entries (strategy self) [c] [r]"
  by (cases c) (auto simp: generate_attestation_def list_append_def mutate_def Let_def)

lemma entries_Cons:
  "call H self c st = (r, st') \<Longrightarrow>
     entries strat (c # cs) (r # rs) = entries strat [c] [r] @ entries strat cs rs"
  by (cases c) (auto simp: Let_def split: prod.splits)

lemma run_log:
  "run H self cs st = (rs, st') \<Longrightarrow>
     cells st' (attestation_log self)
       = cells st (attestation_log self) @ entries (strategy self) cs rs"
proof (induction cs arbitrary: st rs st')
  case Nil
  then show ?case by simp
next
  case (Cons c cs)
  obtain r st1 where c: "call H self c st = (r, st1)"
    by (cases "call H self c st")
  obtain rs1 st2 where r: "run H self cs st1 = (rs1, st2)"
    by (cases "run H self cs st1")
  from Cons.prems c r have eq: "rs = r # rs1" "st' = st2"
    by simp_all
  show ?case
    using call_log [OF c] Cons.IH [OF r] entries_Cons [OF c, of "strategy self" cs rs1] eq
    by simp
qed

lemma run_count:
  "run H self cs st = (rs, st') \<Longrightarrow>
     length (entries strat cs rs) = length (filter is_generate cs)"
proof (induction cs arbitrary: st rs st')
  case Nil
  then show ?case by simp
next
  case (Cons c cs)
  obtain r st1 where c: "call H self c st = (r, st1)"
    by (cases "call H self c st")
  obtain rs1 st2 where r: "run H self cs st1 = (rs1, st2)"
    by (cases "run H self cs st1")
  from Cons.prems c r have eq: "rs = r # rs1" "st' = st2"
    by simp_all
  show ?case
    using Cons.IH [OF r] c eq by (cases c) (auto simp: Let_def split: prod.splits)
qed

text \<open>
  C6. Let any sequence of calls run on one engine (generating, verifying, reading the
  trail). Afterwards the audit trail is the trail from before, unchanged and in place,
  followed by one entry for each call of \<^verbatim>\<open>generate_attestation\<close>, in the order of
  the calls, each holding the digest that its call returned, the timestamp of the call and
  the strategy of the engine. So the trail of a new engine after \<open>N\<close> generating calls has
  exactly \<open>N\<close> entries, and one call appends exactly one entry.
\<close>

theorem audit_trail_append_only:
  assumes "run H self cs st = (rs, st')"
  shows "cells st' (get_audit_trail self)
           = cells st (get_audit_trail self) @ entries (strategy self) cs rs
         \<and> length (entries (strategy self) cs rs) = length (filter is_generate cs)
         \<and> (cells st (get_audit_trail self) = [] \<and> list_all is_generate cs \<longrightarrow>
              length (cells st' (get_audit_trail self)) = length cs)
         \<and> cells (snd (generate_attestation H self now out metadata st)) (get_audit_trail self)
             = cells st (get_audit_trail self) @
               [PDict [(''hash'', PStr (fst (generate_attestation H self now out metadata st))),
                       (''timestamp'', PStr now),
                       (''strategy'', PStr (strategy self))]]"
proof -
  have 1: "cells st' (get_audit_trail self)
             = cells st (get_audit_trail self) @ entries (strategy self) cs rs"
    using run_log [OF assms] by (simp add: get_audit_trail_def)
  have 2: "length (entries (strategy self) cs rs) = length (filter is_generate cs)"
    using assms by (rule run_count)
  have 3: "cells st (get_audit_trail self) = [] \<and> list_all is_generate cs \<longrightarrow>
             length (cells st' (get_audit_trail self)) = length cs"
    using 1 2 by (simp add: list_all_iff)
  have 4: "cells (snd (generate_attestation H self now out metadata st)) (get_audit_trail self)
             = cells st (get_audit_trail self) @
               [PDict [(''hash'', PStr (fst (generate_attestation H self now out metadata st))),
                       (''timestamp'', PStr now),
                       (''strategy'', PStr (strategy self))]]"
    by (simp add: generate_attestation_def get_audit_trail_def list_append_def mutate_def Let_def)
  from 1 2 3 4 show ?thesis by blast
qed

theorem audit_trail_append_only_witness:
  "length (cells
     (snd (run id (fst (engine_init ''sha256'' empty_store))
             [Generate ''2024-01-01T00:00:00'' [(''decision'', PStr ''APPROVED'')] None,
              GetAuditTrail,
              Generate ''2024-01-01T00:00:01'' [(''decision'', PStr ''REJECTED'')] None]
             (snd (engine_init ''sha256'' empty_store))))
     (get_audit_trail (fst (engine_init ''sha256'' empty_store)))) = 2"
  using audit_trail_append_only [of id "fst (engine_init ''sha256'' empty_store)"
      "[Generate ''2024-01-01T00:00:00'' [(''decision'', PStr ''APPROVED'')] None,
        GetAuditTrail,
        Generate ''2024-01-01T00:00:01'' [(''decision'', PStr ''REJECTED'')] None]"
      "snd (engine_init ''sha256'' empty_store)"
      "fst (run id (fst (engine_init ''sha256'' empty_store))
             [Generate ''2024-01-01T00:00:00'' [(''decision'', PStr ''APPROVED'')] None,
              GetAuditTrail,
              Generate ''2024-01-01T00:00:01'' [(''decision'', PStr ''REJECTED'')] None]
             (snd (engine_init ''sha256'' empty_store)))"
      "snd (run id (fst (engine_init ''sha256'' empty_store))
             [Generate ''2024-01-01T00:00:00'' [(''decision'', PStr ''APPROVED'')] None,
              GetAuditTrail,
              Generate ''2024-01-01T00:00:01'' [(''decision'', PStr ''REJECTED'')] None]
             (snd (engine_init ''sha256'' empty_store)))"]
  by (simp add: engine_init_def empty_store_def get_audit_trail_def)

text \<open>
  C8, as amended. \<^verbatim>\<open>get_audit_trail\<close> returns the list object that is the engine's
  log, not a copy: whatever in-place change a caller makes to the returned list is made to
  the log that the engine reads and appends to.
\<close>

theorem audit_trail_is_the_log:
  "get_audit_trail self = attestation_log self
   \<and> cells (mutate (get_audit_trail self) f st) (attestation_log self)
       = f (cells st (attestation_log self))"
  by (simp add: get_audit_trail_def mutate_def)

text \<open>
  C8 as stated fails: a new engine generates one attestation, so that its log has an
  entry; the caller clears the list that \<^verbatim>\<open>get_audit_trail\<close> returned; the engine's
  log is then empty.
\<close>

theorem audit_trail_snapshot_counterexample:
  "cells (snd (generate_attestation id (fst (engine_init ''sha256'' empty_store))
                 ''2024-01-01T00:00:00'' [(''decision'', PStr ''APPROVED'')] None
                 (snd (engine_init ''sha256'' empty_store))))
         (attestation_log (fst (engine_init ''sha256'' empty_store))) \<noteq> []
   \<and> cells (list_clear (get_audit_trail (fst (engine_init ''sha256'' empty_store)))
            (snd (generate_attestation id (fst (engine_init ''sha256'' empty_store))
                 ''2024-01-01T00:00:00'' [(''decision'', PStr ''APPROVED'')] None
                 (snd (engine_init ''sha256'' empty_store)))))
         (attestation_log (fst (engine_init ''sha256'' empty_store))) = []"
  by (simp add: generate_attestation_def engine_init_def empty_store_def list_clear_def
        list_append_def mutate_def get_audit_trail_def Let_def)

section \<open>The canonical text\<close>

subsection \<open>Strings are encoded injectively\<close>

lemma digit_char_inj: "i < 16 \<Longrightarrow> j < 16 \<Longrightarrow> digit_char i = digit_char j \<Longrightarrow> i = j"
proof -
  assume a: "i < 16" "j < 16" "digit_char i = digit_char j"
  have d: "distinct ''0123456789abcdef''" by simp
  have l: "length ''0123456789abcdef'' = 16" by simp
  from a have "''0123456789abcdef'' ! i = ''0123456789abcdef'' ! j"
    by (simp add: digit_char_def)
  with d l a(1,2) show "i = j" by (metis nth_eq_iff_index_eq)
qed

lemma hex2_inj: "m < 256 \<Longrightarrow> n < 256 \<Longrightarrow> hex2 m = hex2 n \<Longrightarrow> m = n"
proof -
  assume a: "m < 256" "n < 256" "hex2 m = hex2 n"
  then have e: "digit_char (m div 16) = digit_char (n div 16)"
    "digit_char (m mod 16) = digit_char (n mod 16)"
    by (simp_all add: hex2_def)
  from a have "m div 16 < 16" "n div 16 < 16" by auto
  with e(1) have 1: "m div 16 = n div 16" by (rule digit_char_inj [rotated 2])
  have "m mod 16 < 16" "n mod 16 < 16" by simp_all
  with e(2) have 2: "m mod 16 = n mod 16" by (rule digit_char_inj [rotated 2])
  from 1 2 show "m = n" by (metis div_mult_mod_eq)
qed

lemma hex2_of_char_append:
  "hex2 (of_char a) @ x = hex2 (of_char b) @ y \<Longrightarrow> a = b"
proof -
  assume "hex2 (of_char a) @ x = hex2 (of_char b) @ y"
  then have "hex2 (of_char a) = hex2 (of_char b)" by (simp add: hex2_def)
  then have "(of_char a :: nat) = of_char b" by (rule hex2_inj [rotated 2]) simp_all
  then show "a = b" by simp
qed

lemma of_char_same: "of_char a = (n::nat) \<Longrightarrow> of_char b = n \<Longrightarrow> a = b"
  by (rule of_char_eqI [where ?'a = nat]) simp

text \<open>No escape is the beginning of another: the escapes form a prefix code.\<close>

lemma escape_ascii_prefix_free:
  "escape_ascii a @ x = escape_ascii b @ y \<Longrightarrow> a = b"
  apply (auto simp: escape_ascii_def Let_def split: if_splits)
          apply (erule (1) of_char_same)+
     apply (drule hex2_of_char_append, assumption)+
  done

lemma escape_ascii_not_Nil: "escape_ascii a \<noteq> []"
  by (simp add: escape_ascii_def Let_def)

lemma escape_ascii_inj:
  "concat (map escape_ascii s) = concat (map escape_ascii t) \<Longrightarrow> s = t"
proof (induction s arbitrary: t)
  case Nil
  then show ?case by (cases t) (simp_all add: escape_ascii_not_Nil)
next
  case (Cons a s)
  show ?case
  proof (cases t)
    case Nil
    with Cons.prems show ?thesis by (simp add: escape_ascii_not_Nil)
  next
    case (Cons b t')
    with Cons.prems have e: "escape_ascii a @ concat (map escape_ascii s)
        = escape_ascii b @ concat (map escape_ascii t')" by simp
    then have "a = b" by (rule escape_ascii_prefix_free)
    with e Cons.IH [of t'] Cons show ?thesis by simp
  qed
qed

lemma encode_basestring_ascii_inj:
  "encode_basestring_ascii s = encode_basestring_ascii t \<Longrightarrow> s = t"
  by (simp add: encode_basestring_ascii_def escape_ascii_inj)

subsection \<open>The text that is hashed\<close>

lemma enc_keys:
  "encode_basestring_ascii ''output'' = ''\"output\"''"
  "encode_basestring_ascii ''metadata'' = ''\"metadata\"''"
  "encode_basestring_ascii ''timestamp'' = ''\"timestamp\"''"
  "encode_basestring_ascii ''reasoning_path'' = ''\"reasoning_path\"''"
  "encode_basestring_ascii ''confidence_score'' = ''\"confidence_score\"''"
  "encode_basestring_ascii ''decision'' = ''\"decision\"''"
  "encode_basestring_ascii ''confidence'' = ''\"confidence\"''"
  "encode_basestring_ascii ''reasoning'' = ''\"reasoning\"''"
  "encode_basestring_ascii ''verified'' = ''\"verified\"''"
  "encode_basestring_ascii ''symbolic_weight'' = ''\"symbolic_weight\"''"
  "encode_basestring_ascii ''probabilistic_weight'' = ''\"probabilistic_weight\"''"
  by (simp_all add: encode_basestring_ascii_def escape_ascii_def)

lemma attestation_str_unfold:
  "attestation_str out metadata now =
     ''{\"metadata\": '' @ dumps (PDict (or_empty metadata)) @
     '', \"output\": '' @ dumps (PDict out) @
     '', \"timestamp\": '' @ encode_basestring_ascii now @ ''}''"
proof -
  have s: "sort_key fst [(''output'', PDict out), (''metadata'', PDict (or_empty metadata)),
                         (''timestamp'', PStr now)]
           = [(''metadata'', PDict (or_empty metadata)), (''output'', PDict out),
              (''timestamp'', PStr now)]"
    by simp
  show ?thesis
    unfolding attestation_str_def
      dumps.simps(7) [of "[(''output'', PDict out), (''metadata'', PDict (or_empty metadata)),
                           (''timestamp'', PStr now)]"] s
    by (simp add: enc_keys del: dumps.simps(6,7))
qed

lemma attestation_str_inj_now:
  "attestation_str out metadata now = attestation_str out metadata now' \<Longrightarrow> now = now'"
  by (simp add: attestation_str_unfold encode_basestring_ascii_inj del: dumps.simps)

text \<open>
  C3. Generate an attestation at the timestamp \<open>now\<close>, then verify the same payload and
  metadata against the returned digest at the timestamp \<open>now'\<close>. When the two timestamps
  differ, the text that verification hashes differs from the text that was hashed, and
  verification returns false unless SHA-256 takes the same value on these two different
  texts. Verification returns true only when the timestamps coincide (or on such a
  collision), and it does return true when they coincide.
\<close>

theorem verify_after_generate:
  "(now' \<noteq> now \<longrightarrow> attestation_str out metadata now' \<noteq> attestation_str out metadata now)
   \<and> (now' \<noteq> now \<and> H (attestation_str out metadata now') \<noteq> H (attestation_str out metadata now)
        \<longrightarrow> \<not> verify_attestation H now' out
                (fst (generate_attestation H self now out metadata st)) metadata)
   \<and> (verify_attestation H now' out (fst (generate_attestation H self now out metadata st)) metadata
        \<longrightarrow> now' = now
            \<or> H (attestation_str out metadata now') = H (attestation_str out metadata now))
   \<and> (now' = now
        \<longrightarrow> verify_attestation H now' out
              (fst (generate_attestation H self now out metadata st)) metadata)"
  using attestation_str_inj_now [of out metadata now' now]
  by (auto simp: verify_attestation_def generate_attestation_def Let_def)

theorem verify_after_generate_witness:
  "\<not> verify_attestation id ''2024-01-01T00:00:01'' [(''decision'', PStr ''APPROVED'')]
       (fst (generate_attestation id (fst (engine_init ''sha256'' empty_store))
               ''2024-01-01T00:00:00'' [(''decision'', PStr ''APPROVED'')] None
               (snd (engine_init ''sha256'' empty_store))))
       None
   \<and> verify_attestation id ''2024-01-01T00:00:00'' [(''decision'', PStr ''APPROVED'')]
       (fst (generate_attestation id (fst (engine_init ''sha256'' empty_store))
               ''2024-01-01T00:00:00'' [(''decision'', PStr ''APPROVED'')] None
               (snd (engine_init ''sha256'' empty_store))))
       None"
  using
    verify_after_generate [of "''2024-01-01T00:00:01''" "''2024-01-01T00:00:00''"
      "[(''decision'', PStr ''APPROVED'')]" None id
      "fst (engine_init ''sha256'' empty_store)" "snd (engine_init ''sha256'' empty_store)"]
    verify_after_generate [of "''2024-01-01T00:00:00''" "''2024-01-01T00:00:00''"
      "[(''decision'', PStr ''APPROVED'')]" None id
      "fst (engine_init ''sha256'' empty_store)" "snd (engine_init ''sha256'' empty_store)"]
  by simp

subsection \<open>Sorting makes the text independent of insertion order\<close>










section \<open>Attestation of the pipeline's output\<close>

lemma verify_output_str_head:
  "\<exists>rest. verify_output_str h = ''{\"confidence_score\": '' @ rest"
  by (simp add: verify_output_str_def enc_keys del: dumps.simps(6))

lemma dumps_symbolic_head:
  "\<exists>rest. dumps (PDict (symbolic_reasoning i v)) = ''{\"decision\": '' @ rest"
  by (simp add: symbolic_reasoning_def enc_keys)

lemma dumps_probabilistic_head:
  "\<exists>rest. dumps (PDict (probabilistic_inference i)) = ''{\"confidence\": '' @ rest"
  by (simp add: probabilistic_inference_def enc_keys)

lemma dumps_fused_head:
  "\<exists>rest. dumps (PDict [(''decision'', a), (''confidence'', b), (''reasoning'', c),
                          (''symbolic_weight'', d), (''probabilistic_weight'', e)])
           = ''{\"confidence\": '' @ rest"
  by (simp add: enc_keys del: dumps.simps(6))

lemma orchestrate_stub_cases:
  assumes "orchestrate self (symbolic_reasoning i v) (probabilistic_inference i) = Inr fused"
  shows "fused = symbolic_reasoning i v \<or> fused = probabilistic_inference i
         \<or> (\<exists>a b c d e. fused = [(''decision'', a), (''confidence'', b), (''reasoning'', c),
                          (''symbolic_weight'', d), (''probabilistic_weight'', e)])"
  using assms unfolding orchestrate_def
  by (auto split: sum.splits if_splits)

lemma dumps_fused_differs:
  assumes "orchestrate self (symbolic_reasoning i v) (probabilistic_inference i) = Inr fused"
  shows "dumps (PDict fused) \<noteq> verify_output_str h"
proof -
  obtain r0 where v: "verify_output_str h = ''{\"confidence_score\": '' @ r0"
    using verify_output_str_head by blast
  from orchestrate_stub_cases [OF assms]
  consider "fused = symbolic_reasoning i v" | "fused = probabilistic_inference i"
    | a b c d e where "fused = [(''decision'', a), (''confidence'', b), (''reasoning'', c),
                          (''symbolic_weight'', d), (''probabilistic_weight'', e)]"
    by blast
  then show ?thesis
  proof cases
    case 1
    obtain r where "dumps (PDict fused) = ''{\"decision\": '' @ r"
      using dumps_symbolic_head 1 by blast
    with v show ?thesis by simp
  next
    case 2
    obtain r where "dumps (PDict fused) = ''{\"confidence\": '' @ r"
      using dumps_probabilistic_head 2 by blast
    with v show ?thesis by simp
  next
    case 3
    obtain r where "dumps (PDict fused) = ''{\"confidence\": '' @ r"
      using dumps_fused_head 3 by blast
    with v show ?thesis by simp
  qed
qed

text \<open>
  C9. Let \<^verbatim>\<open>process\<close> return the output \<open>h\<close> with attestation enabled. The hash in \<open>h\<close>
  is the digest of the text \<open>s\<close> of the fused dictionary; \<^verbatim>\<open>verify_output\<close> hashes the
  text of a dictionary with the keys \<^verbatim>\<open>output\<close>, \<^verbatim>\<open>reasoning_path\<close> and
  \<^verbatim>\<open>confidence_score\<close>, which is never \<open>s\<close>. So \<^verbatim>\<open>verify_output(h, h.attestation_hash)\<close>
  is false, unless SHA-256 takes the same value on these two different texts.
\<close>

theorem process_attestation_never_verifies:
  assumes "process H self input_data require_explanation verify_constraints = Inr h"
      and "attestation_enabled self"
  shows "\<exists>s. attestation_hash h = Some (H s) \<and> s \<noteq> verify_output_str h
             \<and> verify_output H h (attestation_hash h) = (H (verify_output_str h) = H s)"
proof -
  obtain fused where
    f: "orchestrate self (symbolic_reasoning input_data verify_constraints)
          (probabilistic_inference input_data) = Inr fused"
    and a: "attestation_hash h = Some (H (dumps (PDict fused)))"
    using assms
    by (auto simp: process_def Let_def model_generate_attestation_def split: sum.splits)
  have "dumps (PDict fused) \<noteq> verify_output_str h"
    using f by (rule dumps_fused_differs)
  with a show ?thesis
    by (auto simp: verify_output_def)
qed

theorem process_attestation_never_verifies_witness:
  "\<not> verify_output id
       (projr (process id (new_model (Member HYBRID)) (PStr ''loan application'') True True))
       (attestation_hash
          (projr (process id (new_model (Member HYBRID)) (PStr ''loan application'') True True)))"
proof -
  have p: "process id (new_model (Member HYBRID)) (PStr ''loan application'') True True
           = Inr (projr (process id (new_model (Member HYBRID)) (PStr ''loan application'')
                           True True))"
    by (simp add: process_def orchestrate_def new_model_def getitem_def get_def Let_def
          symbolic_reasoning_def probabilistic_inference_def)
  have e: "attestation_enabled (new_model (Member HYBRID))"
    by (simp add: new_model_def)
  from process_attestation_never_verifies [OF p e] show ?thesis
    by auto
qed

end
